theory Spec2Isabelle
  imports Main
begin

section \<open>JavaScript values\<close>

text \<open>
  The values that flow through the media download pipeline and the server-sent-events
  controller: \<open>undefined\<close>, \<open>null\<close>, booleans, numbers (byte counts, speeds and
  percentages, taken as integers), strings, \<open>Error\<close> objects (name and message) and plain
  objects. A plain object is an association list in property order; its keys are distinct.
\<close>

datatype jserror = JSError string string

datatype jsval =
    Undefined
  | Null
  | Bool bool
  | Num int
  | Str string
  | Err jserror
  | Obj "(string \<times> jsval) list"

type_synonym obj = "(string \<times> jsval) list"

type_synonym PostId = string

text \<open>\<open>Error.prototype.toString\<close>: the name, the message, or \<open>name: message\<close>.\<close>

fun Error_toString :: "jserror \<Rightarrow> string" where
  "Error_toString (JSError n m) =
     (if n = [] then m else if m = [] then n else n @ '': '' @ m)"

text \<open>\<open>Number.prototype.toString\<close> on an integer: its decimal digits.\<close>

fun digits :: "nat \<Rightarrow> string" where
  "digits n = (if n < 10 then [char_of (48 + n)] else digits (n div 10) @ [char_of (48 + n mod 10)])"

definition Number_toString :: "int \<Rightarrow> string" where
  "Number_toString i = (if i < 0 then ''-'' @ digits (nat (- i)) else digits (nat i))"

text \<open>\<open>v?.toString()\<close>: \<open>undefined\<close> on a nullish value, the value's string otherwise.\<close>

fun optional_toString :: "jsval \<Rightarrow> jsval" where
  "optional_toString Undefined = Undefined"
| "optional_toString Null = Undefined"
| "optional_toString (Bool b) = Str (if b then ''true'' else ''false'')"
| "optional_toString (Num n) = Str (Number_toString n)"
| "optional_toString (Str s) = Str s"
| "optional_toString (Err e) = Str (Error_toString e)"
| "optional_toString (Obj ps) = Str ''[object Object]''"

text \<open>Property read \<open>o.k\<close> (\<open>undefined\<close> when absent) and property write in a spread
  \<open>{...o, k: v}\<close> (in place when the key exists, appended otherwise).\<close>

definition obj_get :: "obj \<Rightarrow> string \<Rightarrow> jsval" where
  "obj_get ob k = (case map_of ob k of Some v \<Rightarrow> v | None \<Rightarrow> Undefined)"

definition obj_set :: "obj \<Rightarrow> string \<Rightarrow> jsval \<Rightarrow> obj" where
  "obj_set ob k v =
     (if k \<in> fst ` set ob then map (\<lambda>(k', v'). if k' = k then (k', v) else (k', v')) ob
      else ob @ [(k, v)])"

subsection \<open>Ramda and ramda-adjunct\<close>

definition RA_isError :: "jsval \<Rightarrow> bool" where
  "RA_isError v = (case v of Err e \<Rightarrow> True | _ \<Rightarrow> False)"

definition RA_isNotNil :: "jsval \<Rightarrow> bool" where
  "RA_isNotNil v = (v \<noteq> Undefined \<and> v \<noteq> Null)"

definition RA_isNonEmptyString :: "jsval \<Rightarrow> bool" where
  "RA_isNonEmptyString v = (case v of Str s \<Rightarrow> s \<noteq> [] | _ \<Rightarrow> False)"

text \<open>\<open>R.pick(names, obj)\<close> copies, in the order of \<open>names\<close>, the properties that exist;
  \<open>R.pickBy(pred, obj)\<close> keeps the properties whose value satisfies \<open>pred\<close>.\<close>

definition R_pick :: "string list \<Rightarrow> obj \<Rightarrow> obj" where
  "R_pick names ob =
     concat (map (\<lambda>n. case map_of ob n of Some v \<Rightarrow> [(n, v)] | None \<Rightarrow> []) names)"

definition R_pickBy :: "(jsval \<Rightarrow> bool) \<Rightarrow> obj \<Rightarrow> obj" where
  "R_pickBy pred ob = filter (\<lambda>(k, v). pred v) ob"

text \<open>\<open>R.cond(pairs)\<close>: the transformer of the first pair whose predicate holds, applied
  to the argument; \<open>undefined\<close> (here \<open>None\<close>) when no predicate holds.\<close>

fun R_cond :: "(('a \<Rightarrow> bool) \<times> ('a \<Rightarrow> 'b)) list \<Rightarrow> 'a \<Rightarrow> 'b option" where
  "R_cond [] x = None"
| "R_cond ((p, f) # rest) x = (if p x then Some (f x) else R_cond rest x)"

section \<open>The server-sent-events controller\<close>

subsection \<open>Records prepared for the frontend\<close>

text \<open>The predicate handed to \<open>R.pickBy\<close> in \<open>removePropsWithNoData\<close>: a \<open>ts-pattern\<close>
  match on the kind of the value, first pattern first.\<close>

fun hasData :: "jsval \<Rightarrow> bool" where
  "hasData (Str s) = RA_isNonEmptyString (Str s)"
| "hasData (Num n) = (n > 0)"
| "hasData (Bool b) = (b \<noteq> False)"
| "hasData Undefined = False"
| "hasData Null = False"
| "hasData v = True"

definition removePropsWithNoData :: "obj \<Rightarrow> obj" where
  "removePropsWithNoData = R_pickBy hasData"

definition stringifyAnyErrors :: "obj \<Rightarrow> obj" where
  "stringifyAnyErrors download =
     obj_set download ''downloadError''
       (if RA_isError (Obj download)
        then optional_toString (obj_get download ''downloadError'')
        else obj_get download ''downloadError'')"

definition trimmedDownloadProps :: "string list" where
  "trimmedDownloadProps =
     [''id'', ''url'', ''downloadFailed'', ''downloadError'', ''downloadCancelled'',
      ''downloadCancellationReason'', ''downloadSkipped'', ''downloadSkippedReason'',
      ''downloadStarted'', ''downloadSucceeded'', ''downloadProgress'', ''downloadSpeed'',
      ''downloadedBytes'', ''downloadFileSize'']"

text \<open>A \<open>DownloadsMap\<close> is a \<open>Map\<close> from post id to record; its entries are kept in
  insertion order.\<close>

type_synonym DownloadsMap = "(string \<times> obj) list"

definition convertDownloadsMapForFrontend :: "DownloadsMap \<Rightarrow> obj list" where
  "convertDownloadsMapForFrontend downloads =
     map removePropsWithNoData
       (map stringifyAnyErrors (map (R_pick trimmedDownloadProps) (map snd downloads)))"

subsection \<open>Frames\<close>

text \<open>
  \<open>SSEData\<close> is an array of trimmed records, one payload object, or \<open>null\<close>.
  \<open>createSSEEvent\<close> renders \<open>event: <event>\<close>, a line break, \<open>data: <JSON of data>\<close>
  and a blank line; a frame keeps the first line as text and the payload of the second
  line as the value handed to \<open>JSON.stringify\<close>.
\<close>

datatype ssedata = Downloads "obj list" | Payload obj | NoData

record SSE =
  event :: string
  data :: ssedata

type_synonym frame = "string \<times> ssedata"

definition createSSEEvent :: "SSE \<Rightarrow> frame" where
  "createSSEEvent sse = (''event: '' @ event sse, data sse)"

subsection \<open>The emitter, the connections and the handler\<close>

text \<open>
  The nine closures that one call of \<open>SSEHandler\<close> creates. A listener is such a closure
  together with the connection whose \<open>reply\<close> it writes to; two calls of \<open>SSEHandler\<close>
  never share a listener.
\<close>

datatype handler =
    newDownloadBatchStarted
  | downloadsCleared
  | aDownloadStarted
  | aDownloadFailed
  | aDownloadSucceeded
  | aDownloadCancelled
  | aDownloadSkipped
  | progressOfADownload
  | downloadTryIncrementForDownload

type_synonym listener = "nat \<times> handler"

text \<open>The arguments an event is emitted with, by the shape of the handlers' parameters.\<close>

datatype args =
    ArgsNone
  | ArgsDownloads DownloadsMap
  | ArgsPost PostId
  | ArgsPostErr PostId "jserror option"
  | ArgsPostReason PostId string
  | ArgsProgress PostId int int int int

text \<open>
  The body of each closure: the \<open>SSE\<close> value it hands to \<open>createSSEEvent\<close>. \<open>None\<close>
  stands for a call whose arguments do not have the closure's parameter types.
\<close>

fun handlerBody :: "handler \<Rightarrow> args \<Rightarrow> SSE option" where
  "handlerBody newDownloadBatchStarted a =
     (case a of
        ArgsDownloads downloads \<Rightarrow>
          Some \<lparr>event = ''new-download-batch-started'',
                data = Downloads (convertDownloadsMapForFrontend downloads)\<rparr>
      | _ \<Rightarrow> None)"
| "handlerBody downloadsCleared a =
     (case a of
        ArgsNone \<Rightarrow> Some \<lparr>event = ''downloads-cleared'', data = NoData\<rparr>
      | _ \<Rightarrow> None)"
| "handlerBody aDownloadStarted a =
     (case a of
        ArgsPost postId \<Rightarrow>
          Some \<lparr>event = ''download-started'', data = Payload [(''postId'', Str postId)]\<rparr>
      | _ \<Rightarrow> None)"
| "handlerBody aDownloadFailed a =
     (case a of
        ArgsPostErr postId err \<Rightarrow>
          Some \<lparr>event = ''download-failed'',
                data = Payload
                  [(''postId'', Str postId),
                   (''err'', Str (case err of Some e \<Rightarrow> Error_toString e | None \<Rightarrow> []))]\<rparr>
      | _ \<Rightarrow> None)"
| "handlerBody aDownloadSucceeded a =
     (case a of
        ArgsPost postId \<Rightarrow>
          Some \<lparr>event = ''download-succeeded'', data = Payload [(''postId'', Str postId)]\<rparr>
      | _ \<Rightarrow> None)"
| "handlerBody aDownloadCancelled a =
     (case a of
        ArgsPostReason postId reason \<Rightarrow>
          Some \<lparr>event = ''download-cancelled'',
                data = Payload [(''postId'', Str postId), (''reason'', Str reason)]\<rparr>
      | _ \<Rightarrow> None)"
| "handlerBody aDownloadSkipped a =
     (case a of
        ArgsPostReason postId reason \<Rightarrow>
          Some \<lparr>event = ''download-skipped'',
                data = Payload [(''postId'', Str postId), (''reason'', Str reason)]\<rparr>
      | _ \<Rightarrow> None)"
| "handlerBody progressOfADownload a =
     (case a of
        ArgsProgress postId downloadFileSize downloadedBytes downloadSpeed downloadProgress \<Rightarrow>
          Some \<lparr>event = ''download-skipped'',
                data = Payload
                  [(''postId'', Str postId),
                   (''downloadFileSize'', Num downloadFileSize),
                   (''downloadedBytes'', Num downloadedBytes),
                   (''downloadSpeed'', Num downloadSpeed),
                   (''downloadProgress'', Num downloadProgress)]\<rparr>
      | _ \<Rightarrow> None)"
| "handlerBody downloadTryIncrementForDownload a =
     (case a of
        ArgsPost postId \<Rightarrow>
          Some \<lparr>event = ''download-media-try-increment'',
                data = Payload [(''postId'', Str postId)]\<rparr>
      | _ \<Rightarrow> None)"

text \<open>
  The state the controller works on: the tracker's table
  (\<open>adminMediaDownloadsViewerOrganiser.posts\<close>), the emitter's listeners by event name in
  registration order, what has been written to each connection's \<open>reply.raw\<close>, its
  response headers, and the number of calls of \<open>SSEHandler\<close> so far.
\<close>

record server =
  posts :: DownloadsMap
  listeners :: "string \<Rightarrow> listener list"
  written :: "nat \<Rightarrow> frame list"
  headers :: "nat \<Rightarrow> (string \<times> string) list"
  connections :: nat

definition setHeader :: "nat \<Rightarrow> string \<Rightarrow> string \<Rightarrow> server \<Rightarrow> server" where
  "setHeader c k v s = s\<lparr>headers := (headers s)(c := headers s c @ [(k, v)])\<rparr>"

definition reply_write :: "nat \<Rightarrow> frame \<Rightarrow> server \<Rightarrow> server" where
  "reply_write c f s = s\<lparr>written := (written s)(c := written s c @ [f])\<rparr>"

text \<open>\<open>emitter.on\<close> appends; \<open>emitter.removeListener\<close> removes the most recently added
  instance of the listener from the list of that event name, if there is one.\<close>

definition emitter_on :: "string \<Rightarrow> listener \<Rightarrow> server \<Rightarrow> server" where
  "emitter_on ev l s = s\<lparr>listeners := (listeners s)(ev := listeners s ev @ [l])\<rparr>"

definition removeListener :: "string \<Rightarrow> listener \<Rightarrow> server \<Rightarrow> server" where
  "removeListener ev l s =
     s\<lparr>listeners := (listeners s)(ev := rev (remove1 l (rev (listeners s ev))))\<rparr>"

definition callListener :: "args \<Rightarrow> listener \<Rightarrow> server \<Rightarrow> server" where
  "callListener a l s =
     (case handlerBody (snd l) a of
        Some sse \<Rightarrow> reply_write (fst l) (createSSEEvent sse) s
      | None \<Rightarrow> s)"

text \<open>\<open>emitter.emit\<close> calls the listeners of the event name, in registration order.\<close>

definition emit :: "string \<Rightarrow> args \<Rightarrow> server \<Rightarrow> server" where
  "emit ev a s = fold (callListener a) (listeners s ev) s"

text \<open>The nine \<open>emitter.on\<close> calls of \<open>SSEHandler\<close> and the nine
  \<open>emitter.removeListener\<close> calls of its \<open>close\<close> callback, in source order.\<close>

definition registrations :: "(string \<times> handler) list" where
  "registrations =
     [(''new-download-batch-started'', newDownloadBatchStarted),
      (''downloads-cleared'', downloadsCleared),
      (''download-started'', aDownloadStarted),
      (''download-failed'', aDownloadFailed),
      (''download-succeeded'', aDownloadSucceeded),
      (''download-cancelled'', aDownloadCancelled),
      (''download-skipped'', aDownloadSkipped),
      (''download-progress'', progressOfADownload),
      (''download-media-try-increment'', downloadTryIncrementForDownload)]"

definition removals :: "(string \<times> handler) list" where
  "removals =
     [(''new-download-batch-started'', newDownloadBatchStarted),
      (''downloads-cleared'', downloadsCleared),
      (''download-started'', aDownloadStarted),
      (''download-failed'', aDownloadFailed),
      (''download-succeeded'', aDownloadSucceeded),
      (''download-cancelled'', aDownloadCancelled),
      (''download-skipped'', aDownloadSkipped),
      (''download-progress'', progressOfADownload),
      (''download-media-try-increment'', downloadTryIncrementForDownload)]"

definition SSEHandler :: "server \<Rightarrow> server" where
  "SSEHandler s =
     (let c = connections s;
          s1 = setHeader c ''Content-Type'' ''text/event-stream'' s;
          s2 = setHeader c ''Cache-Control'' ''no-cache'' s1;
          s3 = setHeader c ''x-no-compression'' ''true'' s2;
          s4 = setHeader c ''Connection'' ''keep-alive'' s3;
          s5 = reply_write c (createSSEEvent
                 \<lparr>event = ''page-load'',
                  data = Downloads (convertDownloadsMapForFrontend (posts s4))\<rparr>) s4;
          s6 = fold (\<lambda>(ev, h). emitter_on ev (c, h)) registrations s5
      in s6\<lparr>connections := Suc c\<rparr>)"

text \<open>The callback \<open>SSEHandler\<close> registers on the request's \<open>close\<close> event, for
  connection \<open>c\<close>.\<close>

definition onClose :: "nat \<Rightarrow> server \<Rightarrow> server" where
  "onClose c s = fold (\<lambda>(ev, h). removeListener ev (c, h)) removals s"

text \<open>
  What can happen to the controller, one event-loop turn at a time: a client connects
  (\<open>SSEHandler\<close> runs to its end), a connection closes (its callback runs; a connection
  that was never opened has none), the tracker emits an event, the tracker replaces its
  table.
\<close>

datatype action =
    Connect
  | Disconnect nat
  | Emit string args
  | TrackerTable DownloadsMap

fun step :: "action \<Rightarrow> server \<Rightarrow> server" where
  "step Connect s = SSEHandler s"
| "step (Disconnect c) s = (if c < connections s then onClose c s else s)"
| "step (Emit ev a) s = emit ev a s"
| "step (TrackerTable t) s = s\<lparr>posts := t\<rparr>"

fun run :: "action list \<Rightarrow> server \<Rightarrow> server" where
  "run [] s = s"
| "run (a # as) s = run as (step a s)"

definition start :: server where
  "start = \<lparr>posts = [], listeners = (\<lambda>ev. []), written = (\<lambda>c. []),
            headers = (\<lambda>c. []), connections = 0\<rparr>"

subsection \<open>Invariants of the controller\<close>

text \<open>
  In every state the controller reaches, a listener is registered at most once under an
  event name, belongs to a connection that has been opened, and sits under the event
  name \<open>SSEHandler\<close> registered it for; nothing has been written to a connection that
  is not open yet.
\<close>

definition wf :: "server \<Rightarrow> bool" where
  "wf s = (\<forall>ev. distinct (listeners s ev) \<and>
            (\<forall>l \<in> set (listeners s ev). fst l < connections s \<and> (ev, snd l) \<in> set registrations))"

definition quiet :: "server \<Rightarrow> bool" where
  "quiet s = (\<forall>c. connections s \<le> c \<longrightarrow> written s c = [])"

section \<open>The media download pipeline\<close>

subsection \<open>Posts, settings and the outside world\<close>

text \<open>Of a post, the pipeline reads the id (the field \<open>id\<close>, here \<open>post_id\<close>) and
  the number of download tries; the categorizers read its link.\<close>

record Post =
  post_id :: PostId
  url :: string
  mediaDownloadTries :: int

record AdminSettings =
  numberMediaDownloadsAtOnce :: int

text \<open>The object \<open>{post, adminSettings, postMediaFolder}\<close> handed to the categorizers and
  to the download functions.\<close>

record DownloadArg =
  post :: Post
  adminSettings :: AdminSettings
  postMediaFolder :: string

text \<open>
  What \<open>downloadPostsMedia\<close> calls and the sources do not define, and what the outside
  world answers: the media folder of the environment, Node's \<open>path.join\<close>,
  \<open>pCreateFolder\<close> and \<open>isNotError\<close> of \<open>server/utils\<close>, the categorizer
  \<open>isDirectMediaLink\<close>, the transfer \<open>downloadDirectMediaLink\<close>, and the two database
  writes. For a promise, \<open>None\<close> says that it resolves and \<open>Some e\<close> that it rejects
  with \<open>e\<close>.
\<close>

record world =
  postsMediaContainerFolder :: string
  path_join :: "string \<Rightarrow> string \<Rightarrow> string"
  pCreateFolder :: "string \<Rightarrow> jserror option"
  isNotError :: "jsval \<Rightarrow> bool"
  isDirectMediaLink :: "DownloadArg \<Rightarrow> bool"
  downloadDirectMediaLink :: "DownloadArg \<Rightarrow> jserror option"
  db_incrementPostMediaDownloadTry :: "PostId \<Rightarrow> jserror option"
  db_setMediaDownloadedTrueForPost :: "PostId \<Rightarrow> jserror option"

text \<open>
  The calls that leave \<open>downloadPostsMedia\<close>: to the tracker
  (\<open>adminMediaDownloadsViewerOrganiser\<close>), to the database, to the file system and to the
  download executor. A call to the tracker or to the database carries the post's id, as in
  the sources; the call of the executor carries its argument.
\<close>

datatype effect =
    Tracker_initializeWithNewPosts "Post list"
  | Tracker_setDownloadCancelled PostId string
  | Tracker_incrementPostMediaDownloadTry PostId
  | Tracker_setDownloadStarted PostId
  | Tracker_setDownloadSucceeded PostId
  | Tracker_setDownloadFailed PostId jserror
  | Db_incrementPostMediaDownloadTry PostId
  | Db_setMediaDownloadedTrueForPost PostId
  | Fs_pCreateFolder string
  | Executor_downloadDirectMediaLink DownloadArg

text \<open>A settled promise: the calls made on the way, in the order they were made, and
  \<open>Inl\<close> the error it rejected with or \<open>Inr\<close> the value it resolved with.\<close>

type_synonym 'a promise = "effect list \<times> (jserror + 'a)"

subsection \<open>One post\<close>

definition maxNumberDownloadTriesAllowed :: int where
  "maxNumberDownloadTriesAllowed = 3"

definition tooManyDownloadTries :: "Post \<Rightarrow> bool" where
  "tooManyDownloadTries p = (mediaDownloadTries p \<ge> maxNumberDownloadTriesAllowed)"

definition createMediaFolderForPost :: "world \<Rightarrow> PostId \<Rightarrow> string promise" where
  "createMediaFolderForPost w postId =
     (let folder = path_join w (postsMediaContainerFolder w) postId
      in ([Fs_pCreateFolder folder],
          case pCreateFolder w folder of Some e \<Rightarrow> Inl e | None \<Rightarrow> Inr folder))"

text \<open>
  \<open>R.compose(R.cond([[isDirectMediaLink, downloadDirectMediaLink]]))\<close>: every other pair
  of the list is commented out in the sources. The result is the promise of the download
  function that was chosen, or \<open>None\<close> for \<open>undefined\<close> when no pair matched.
\<close>

definition downloadIndividualPostMedia :: "world \<Rightarrow> DownloadArg \<Rightarrow> unit promise option" where
  "downloadIndividualPostMedia w =
     R_cond [(isDirectMediaLink w,
              \<lambda>a. ([Executor_downloadDirectMediaLink a],
                    case downloadDirectMediaLink w a of Some e \<Rightarrow> Inl e | None \<Rightarrow> Inr ()))]"

text \<open>The \<open>try\<close> block of the callback; awaiting \<open>undefined\<close> goes on at once.\<close>

definition tryBlock :: "world \<Rightarrow> AdminSettings \<Rightarrow> Post \<Rightarrow> string \<Rightarrow> jsval promise" where
  "tryBlock w settings p folder =
     (let started = [Tracker_setDownloadStarted (post_id p)];
          download =
            (case downloadIndividualPostMedia w
                    \<lparr>post = p, adminSettings = settings, postMediaFolder = folder\<rparr> of
               None \<Rightarrow> ([], Inr ())
             | Some pr \<Rightarrow> pr)
      in case snd download of
           Inl err \<Rightarrow> (started @ fst download, Inl err)
         | Inr u \<Rightarrow>
             (started @ fst download @
                [Tracker_setDownloadSucceeded (post_id p),
                 Db_setMediaDownloadedTrueForPost (post_id p)],
              case db_setMediaDownloadedTrueForPost w (post_id p) of
                Some err \<Rightarrow> Inl err
              | None \<Rightarrow> Inr (Str (post_id p))))"

text \<open>
  The callback handed to \<open>forEachAsync\<close>. In its \<open>catch\<close> block, after
  \<open>setDownloadFailed\<close>, the statement \<open>await logDownloadErrorIfNotOffline(err, post)\<close>
  names a function that the file neither defines nor imports: evaluating the name throws
  a \<open>ReferenceError\<close>, the callback rejects with it, and \<open>return downloadError\<close> is not
  reached. So the callback resolves with the post's id or with \<open>undefined\<close>, or it
  rejects.
\<close>

definition ReferenceError_logDownloadErrorIfNotOffline :: jserror where
  "ReferenceError_logDownloadErrorIfNotOffline =
     JSError ''ReferenceError'' ''logDownloadErrorIfNotOffline is not defined''"

definition downloadPostsMedia_callback ::
    "world \<Rightarrow> AdminSettings \<Rightarrow> Post \<Rightarrow> jsval promise" where
  "downloadPostsMedia_callback w settings p =
     (if tooManyDownloadTries p
      then ([Tracker_setDownloadCancelled (post_id p)
               ''Download Skipped: Too many download tries (3).''],
            Inr Undefined)
      else
        let counted = [Tracker_incrementPostMediaDownloadTry (post_id p),
                       Db_incrementPostMediaDownloadTry (post_id p)]
        in case db_incrementPostMediaDownloadTry w (post_id p) of
             Some e \<Rightarrow> (counted, Inl e)
           | None \<Rightarrow>
               (let made = createMediaFolderForPost w (post_id p)
                in case snd made of
                     Inl e \<Rightarrow> (counted @ fst made, Inl e)
                   | Inr folder \<Rightarrow>
                       (let tried = tryBlock w settings p folder
                        in case snd tried of
                             Inr v \<Rightarrow> (counted @ fst made @ fst tried, Inr v)
                           | Inl downloadError \<Rightarrow>
                               (counted @ fst made @ fst tried @
                                  [Tracker_setDownloadFailed (post_id p) downloadError],
                                Inl ReferenceError_logDownloadErrorIfNotOffline))))"

subsection \<open>The batch\<close>

text \<open>
  \<open>Prray.from(postsArr).forEachAsync(callback, {concurrency})\<close> is an asynchronous
  \<open>forEach\<close>: it starts the callback on the posts in batch order, at most
  \<open>concurrency\<close> of them being in flight at a time; its promise resolves with
  \<open>undefined\<close> once every callback has resolved, and rejects with the error of a callback
  that rejects. Callbacks in flight together interleave at every \<open>await\<close>, and after a
  rejection the posts not yet started may never be started: both depend on how long the
  awaited operations take. The relation admits every such schedule. It keeps the calls of
  each started callback apart, as one run per started post in batch order, and says
  nothing on how the runs interleave. The limit is taken to be positive.
\<close>

inductive forEachAsync ::
    "('a \<Rightarrow> 'b promise) \<Rightarrow> 'a list \<Rightarrow> effect list list \<Rightarrow> jserror + unit \<Rightarrow> bool"
  for f :: "'a \<Rightarrow> 'b promise" where
  resolved:
    "\<forall>x \<in> set xs. \<not> isl (snd (f x)) \<Longrightarrow>
     forEachAsync f xs (map (\<lambda>x. fst (f x)) xs) (Inr ())"
| rejected:
    "i < k \<Longrightarrow> k \<le> length xs \<Longrightarrow> snd (f (xs ! i)) = Inl e \<Longrightarrow>
     forEachAsync f xs (map (\<lambda>x. fst (f x)) (take k xs)) (Inl e)"

text \<open>\<open>items.filter(R.compose(isNotError, RA.isNotNil))\<close>: \<open>R.compose\<close> applies its
  right function first and hands the result, a boolean, to its left function. Reading
  \<open>filter\<close> off \<open>undefined\<close> (here \<open>None\<close>) throws a \<open>TypeError\<close>.\<close>

definition R_compose :: "('b \<Rightarrow> 'c) \<Rightarrow> ('a \<Rightarrow> 'b) \<Rightarrow> 'a \<Rightarrow> 'c" where
  "R_compose f g x = f (g x)"

definition TypeError_filter_of_undefined :: jserror where
  "TypeError_filter_of_undefined =
     JSError ''TypeError''
       (''Cannot read properties of undefined (reading '' @ [CHR 0x27] @ ''filter'' @
        [CHR 0x27] @ '')'')"

definition removeFailedDownloads :: "world \<Rightarrow> jsval list option \<Rightarrow> jserror + jsval list" where
  "removeFailedDownloads w items =
     (case items of
        None \<Rightarrow> Inl TypeError_filter_of_undefined
      | Some xs \<Rightarrow> Inr (filter (R_compose (isNotError w) (\<lambda>v. Bool (RA_isNotNil v))) xs))"

text \<open>
  \<open>postsMediaToBeDownloaded\<close> is a \<open>Map\<close>; its values, in insertion order, are the
  batch. \<open>initializeWithNewPosts\<close> is called before the sweep starts and makes the first
  run; \<open>.then(removeFailedDownloads)\<close> hands the \<open>undefined\<close> that the sweep resolves
  with to \<open>removeFailedDownloads\<close>.
\<close>

inductive downloadPostsMedia ::
    "world \<Rightarrow> AdminSettings \<Rightarrow> (string \<times> Post) list \<Rightarrow>
       effect list list \<Rightarrow> jserror + jsval list \<Rightarrow> bool" where
  "forEachAsync (downloadPostsMedia_callback w settings) (map snd postsMediaToBeDownloaded)
       runs swept \<Longrightarrow>
   downloadPostsMedia w settings postsMediaToBeDownloaded
     ([Tracker_initializeWithNewPosts (map snd postsMediaToBeDownloaded)] # runs)
     (case swept of Inl e \<Rightarrow> Inl e | Inr u \<Rightarrow> removeFailedDownloads w None)"

subsection \<open>A sample batch\<close>

text \<open>A world where links to \<open>i.redd.it\<close> files are direct media links, one of them is
  gone, and every database write and folder creation succeeds.\<close>

definition sample_world :: world where
  "sample_world =
     \<lparr>postsMediaContainerFolder = ''posts-media'',
      path_join = (\<lambda>a b. a @ ''/'' @ b),
      pCreateFolder = (\<lambda>folder. None),
      isNotError = (\<lambda>v. \<not> RA_isError v),
      isDirectMediaLink =
        (\<lambda>a. url (post a) = ''https://i.redd.it/cat.png'' \<or>
              url (post a) = ''https://i.redd.it/gone.png''),
      downloadDirectMediaLink =
        (\<lambda>a. if url (post a) = ''https://i.redd.it/gone.png''
              then Some (JSError ''HTTPError'' ''Response code 404 (Not Found)'')
              else None),
      db_incrementPostMediaDownloadTry = (\<lambda>postId. None),
      db_setMediaDownloadedTrueForPost = (\<lambda>postId. None)\<rparr>"

definition sample_settings :: AdminSettings where
  "sample_settings = \<lparr>numberMediaDownloadsAtOnce = 2\<rparr>"

definition post_cat :: Post where
  "post_cat = \<lparr>post_id = ''p1'', url = ''https://i.redd.it/cat.png'', mediaDownloadTries = 0\<rparr>"


definition post_gone :: Post where
  "post_gone = \<lparr>post_id = ''p3'', url = ''https://i.redd.it/gone.png'', mediaDownloadTries = 1\<rparr>"

definition post_text :: Post where
  "post_text =
     \<lparr>post_id = ''p4'', url = ''https://www.reddit.com/r/aww/comments/p4/hello/'',
      mediaDownloadTries = 0\<rparr>"


text \<open>What the callbacks of the sample posts do.\<close>

definition run_cat :: "effect list" where
  "run_cat =
     [Tracker_incrementPostMediaDownloadTry ''p1'',
      Db_incrementPostMediaDownloadTry ''p1'',
      Fs_pCreateFolder ''posts-media/p1'',
      Tracker_setDownloadStarted ''p1'',
      Executor_downloadDirectMediaLink
        \<lparr>post = post_cat, adminSettings = sample_settings,
         postMediaFolder = ''posts-media/p1''\<rparr>,
      Tracker_setDownloadSucceeded ''p1'',
      Db_setMediaDownloadedTrueForPost ''p1'']"


definition run_gone :: "effect list" where
  "run_gone =
     [Tracker_incrementPostMediaDownloadTry ''p3'',
      Db_incrementPostMediaDownloadTry ''p3'',
      Fs_pCreateFolder ''posts-media/p3'',
      Tracker_setDownloadStarted ''p3'',
      Executor_downloadDirectMediaLink
        \<lparr>post = post_gone, adminSettings = sample_settings,
         postMediaFolder = ''posts-media/p3''\<rparr>,
      Tracker_setDownloadFailed ''p3''
        (JSError ''HTTPError'' ''Response code 404 (Not Found)'')]"


section \<open>Properties of the controller\<close>

subsection \<open>Listeners and writes\<close>

lemma wf_distinct: "wf s \<Longrightarrow> distinct (listeners s ev)"
  by (simp add: wf_def)

lemma wf_known: "wf s \<Longrightarrow> l \<in> set (listeners s ev) \<Longrightarrow> fst l < connections s"
  by (simp add: wf_def)

lemma wf_registered:
  "wf s \<Longrightarrow> l \<in> set (listeners s ev) \<Longrightarrow> (ev, snd l) \<in> set registrations"
  by (simp add: wf_def)

lemma fold_on_listeners:
  "listeners (fold (\<lambda>(ev, h). emitter_on ev (c, h)) regs s) e =
     listeners s e @ map (\<lambda>p. (c, snd p)) (filter (\<lambda>p. fst p = e) regs)"
  by (induction regs arbitrary: s) (auto simp: emitter_on_def)

lemma fold_on_other:
  "written (fold (\<lambda>(ev, h). emitter_on ev (c, h)) regs s) = written s"
  "connections (fold (\<lambda>(ev, h). emitter_on ev (c, h)) regs s) = connections s"
  "posts (fold (\<lambda>(ev, h). emitter_on ev (c, h)) regs s) = posts s"
  by (induction regs arbitrary: s) (auto simp: emitter_on_def)

lemma listeners_SSEHandler:
  "listeners (SSEHandler s) e =
     listeners s e @ map (\<lambda>p. (connections s, snd p)) (filter (\<lambda>p. fst p = e) registrations)"
  by (simp add: SSEHandler_def Let_def fold_on_listeners reply_write_def setHeader_def)

lemma connections_SSEHandler: "connections (SSEHandler s) = Suc (connections s)"
  by (simp add: SSEHandler_def Let_def)

lemma posts_SSEHandler: "posts (SSEHandler s) = posts s"
  by (simp add: SSEHandler_def Let_def fold_on_other reply_write_def setHeader_def)

lemma written_SSEHandler:
  "written (SSEHandler s) c =
     (if c = connections s
      then written s c @ [createSSEEvent \<lparr>event = ''page-load'',
             data = Downloads (convertDownloadsMapForFrontend (posts s))\<rparr>]
      else written s c)"
  by (simp add: SSEHandler_def Let_def fold_on_other reply_write_def setHeader_def)

lemma distinct_handlers: "distinct (map snd registrations)"
  by (simp add: registrations_def)

lemma distinct_new_listeners:
  "distinct (map (\<lambda>p. (c, snd p)) (filter (\<lambda>p. fst p = e) registrations))"
proof -
  have "distinct (map snd (filter (\<lambda>p. fst p = e) registrations))"
    using distinct_handlers by (rule distinct_map_filter)
  then have "distinct (map (Pair c) (map snd (filter (\<lambda>p. fst p = e) registrations)))"
    by (simp add: distinct_map inj_on_def)
  then show ?thesis by (simp add: comp_def)
qed

lemma wf_SSEHandler:
  assumes "wf s"
  shows "wf (SSEHandler s)"
  unfolding wf_def
proof (intro allI conjI ballI)
  fix ev
  have old: "\<forall>l \<in> set (listeners s ev). fst l < connections s"
    using assms by (simp add: wf_def)
  have "distinct (listeners s ev)" using assms by (simp add: wf_def)
  then show "distinct (listeners (SSEHandler s) ev)"
    using old distinct_new_listeners [of "connections s" ev]
    by (auto simp: listeners_SSEHandler)
next
  fix ev l
  assume "l \<in> set (listeners (SSEHandler s) ev)"
  then show "fst l < connections (SSEHandler s)"
    using assms by (auto simp: listeners_SSEHandler connections_SSEHandler wf_def less_Suc_eq)
next
  fix ev l
  assume "l \<in> set (listeners (SSEHandler s) ev)"
  then show "(ev, snd l) \<in> set registrations"
    using assms by (auto simp: listeners_SSEHandler wf_def)
qed

lemma remove_last_distinct:
  "distinct xs \<Longrightarrow> rev (remove1 x (rev xs)) = filter (\<lambda>y. y \<noteq> x) xs"
  by (auto simp: distinct_remove1_removeAll removeAll_filter_not_eq rev_filter [symmetric]
      intro: filter_cong)

lemma fold_remove_other:
  "written (fold (\<lambda>(ev, h). removeListener ev (c, h)) rs s) = written s"
  "connections (fold (\<lambda>(ev, h). removeListener ev (c, h)) rs s) = connections s"
  "posts (fold (\<lambda>(ev, h). removeListener ev (c, h)) rs s) = posts s"
  by (induction rs arbitrary: s) (auto simp: removeListener_def)

lemma fold_remove_listeners:
  "distinct (listeners s ev) \<Longrightarrow>
   listeners (fold (\<lambda>(e, h). removeListener e (c, h)) rs s) ev =
     filter (\<lambda>l. \<forall>p \<in> set rs. fst p = ev \<longrightarrow> l \<noteq> (c, snd p)) (listeners s ev)"
proof (induction rs arbitrary: s)
  case Nil
  then show ?case by simp
next
  case (Cons r rs)
  obtain e h where r: "r = (e, h)" by (cases r)
  let ?s' = "removeListener e (c, h) s"
  have l': "listeners ?s' ev =
      (if e = ev then filter (\<lambda>y. y \<noteq> (c, h)) (listeners s ev) else listeners s ev)"
    using Cons.prems by (simp add: removeListener_def remove_last_distinct)
  then have "distinct (listeners ?s' ev)" using Cons.prems by simp
  from Cons.IH [OF this] show ?case
    using l' by (auto simp: r intro!: filter_cong)
qed

lemma registrations_removed: "set registrations \<subseteq> set removals"
  by (simp add: registrations_def removals_def)

lemma listeners_onClose:
  assumes "wf s"
  shows "listeners (onClose c s) ev = filter (\<lambda>l. fst l \<noteq> c) (listeners s ev)"
proof -
  have d: "distinct (listeners s ev)" using assms by (simp add: wf_def)
  have reg: "\<forall>l \<in> set (listeners s ev). (ev, snd l) \<in> set removals"
    using assms registrations_removed by (auto simp: wf_def)
  have "listeners (onClose c s) ev =
      filter (\<lambda>l. \<forall>p \<in> set removals. fst p = ev \<longrightarrow> l \<noteq> (c, snd p)) (listeners s ev)"
    unfolding onClose_def by (rule fold_remove_listeners [OF d])
  also have "\<dots> = filter (\<lambda>l. fst l \<noteq> c) (listeners s ev)"
  proof (rule filter_cong [OF refl])
    fix l assume l: "l \<in> set (listeners s ev)"
    with reg have "(ev, snd l) \<in> set removals" by blast
    then show "(\<forall>p \<in> set removals. fst p = ev \<longrightarrow> l \<noteq> (c, snd p)) = (fst l \<noteq> c)"
      by (cases l) force
  qed
  finally show ?thesis .
qed

lemma wf_onClose:
  assumes "wf s"
  shows "wf (onClose c s)"
proof -
  have c: "connections (onClose c s) = connections s"
    by (simp add: onClose_def fold_remove_other)
  show ?thesis
    unfolding wf_def listeners_onClose [OF assms] c
    using wf_distinct [OF assms] wf_known [OF assms] wf_registered [OF assms] by auto
qed

lemma callListener_fields:
  "listeners (callListener a l s) = listeners s"
  "connections (callListener a l s) = connections s"
  "posts (callListener a l s) = posts s"
  by (auto simp: callListener_def reply_write_def split: option.splits)

lemma fold_callListener_fields:
  "listeners (fold (callListener a) ls s) = listeners s"
  "connections (fold (callListener a) ls s) = connections s"
  "posts (fold (callListener a) ls s) = posts s"
  by (induction ls arbitrary: s) (auto simp: callListener_fields)

lemma wf_emit: "wf s \<Longrightarrow> wf (emit ev a s)"
  by (simp add: wf_def emit_def fold_callListener_fields)

lemma wf_step: "wf s \<Longrightarrow> wf (step a s)"
  by (cases a) (auto simp: wf_SSEHandler wf_onClose wf_emit, simp add: wf_def)

lemma wf_run: "wf s \<Longrightarrow> wf (run as s)"
  by (induction as arbitrary: s) (auto simp: wf_step)

lemma wf_start: "wf start"
  by (simp add: wf_def start_def)

lemma written_callListener:
  "written (callListener a l s) c =
     (case handlerBody (snd l) a of
        Some sse \<Rightarrow> if c = fst l then written s c @ [createSSEEvent sse] else written s c
      | None \<Rightarrow> written s c)"
  by (auto simp: callListener_def reply_write_def split: option.splits)

lemma written_fold_callListener_grows:
  "\<exists>fs. written (fold (callListener a) ls s) c = written s c @ fs"
proof (induction ls arbitrary: s)
  case Nil
  then show ?case by simp
next
  case (Cons l ls)
  obtain fs where "written (fold (callListener a) ls (callListener a l s)) c =
      written (callListener a l s) c @ fs"
    using Cons.IH by blast
  then show ?case
    by (auto simp: written_callListener split: option.splits)
qed

lemma written_fold_callListener_same:
  "\<forall>l \<in> set ls. fst l \<noteq> c \<Longrightarrow> written (fold (callListener a) ls s) c = written s c"
  by (induction ls arbitrary: s) (auto simp: written_callListener split: option.splits)

lemma written_step_grows: "\<exists>fs. written (step a s) c = written s c @ fs"
proof (cases a)
  case Connect
  then show ?thesis by (simp add: written_SSEHandler)
next
  case (Disconnect d)
  then show ?thesis by (simp add: onClose_def fold_remove_other)
next
  case (Emit ev b)
  then show ?thesis by (simp add: emit_def written_fold_callListener_grows)
next
  case (TrackerTable t)
  then show ?thesis by simp
qed

lemma written_run_grows: "\<exists>fs. written (run as s) c = written s c @ fs"
proof (induction as arbitrary: s)
  case Nil
  then show ?case by simp
next
  case (Cons a as)
  obtain fs where 1: "written (step a s) c = written s c @ fs"
    using written_step_grows by blast
  obtain gs where "written (run as (step a s)) c = written (step a s) c @ gs"
    using Cons.IH by blast
  with 1 show ?case by simp
qed

lemma connections_step: "connections s \<le> connections (step a s)"
  by (cases a) (auto simp: connections_SSEHandler onClose_def fold_remove_other emit_def
      fold_callListener_fields)

lemma quiet_step:
  assumes "wf s" "quiet s"
  shows "quiet (step a s)"
proof (cases a)
  case Connect
  then show ?thesis using assms(2)
    by (auto simp: quiet_def written_SSEHandler connections_SSEHandler)
next
  case (Disconnect d)
  then show ?thesis using assms(2) by (auto simp: quiet_def onClose_def fold_remove_other)
next
  case (Emit ev b)
  have "written (emit ev b s) c = written s c" if "connections s \<le> c" for c
    unfolding emit_def
    apply (rule written_fold_callListener_same)
    using wf_known [OF assms(1)] that by fastforce
  then show ?thesis using assms(2) Emit
    by (auto simp: quiet_def emit_def fold_callListener_fields)
next
  case (TrackerTable t)
  then show ?thesis using assms(2) by (simp add: quiet_def)
qed

lemma quiet_run: "wf s \<Longrightarrow> quiet s \<Longrightarrow> quiet (run as s)"
  by (induction as arbitrary: s) (auto simp: quiet_step wf_step)

lemma quiet_start: "quiet start"
  by (simp add: quiet_def start_def)

subsection \<open>What a subscriber receives\<close>

text \<open>
  C5. A progress notification of the tracker reaches every subscriber, but the frame it
  is forwarded in is named \<open>download-skipped\<close>, not \<open>download-progress\<close>: a client
  connects and the tracker emits \<open>download-progress\<close> for post \<open>p1\<close>.
\<close>

theorem progress_frame_event_name:
  "written (run [Connect, Emit ''download-progress'' (ArgsProgress ''p1'' 2048 1024 512 50)]
              start) 0 =
     [(''event: page-load'', Downloads []),
      (''event: download-skipped'',
       Payload [(''postId'', Str ''p1''), (''downloadFileSize'', Num 2048),
                (''downloadedBytes'', Num 1024), (''downloadSpeed'', Num 512),
                (''downloadProgress'', Num 50)])]"
  by (simp add: start_def SSEHandler_def Let_def setHeader_def reply_write_def emitter_on_def
      registrations_def emit_def callListener_def createSSEEvent_def
      convertDownloadsMapForFrontend_def)

lemma map_of_replaced:
  "map_of (map (\<lambda>(k', v'). if k' = k then (k', v) else (k', v')) ob) k =
     (if k \<in> fst ` set ob then Some v else None)"
  by (induction ob) (auto simp: rev_image_eqI)

lemma map_of_obj_set: "map_of (obj_set ob k v) k = Some v"
proof (cases "k \<in> fst ` set ob")
  case True
  then show ?thesis by (simp add: obj_set_def map_of_replaced)
next
  case False
  then have "map_of ob k = None" by (simp add: map_of_eq_None_iff)
  with False show ?thesis by (simp add: obj_set_def map_add_def)
qed

lemma stringifyAnyErrors_leaves_error:
  "obj_get (stringifyAnyErrors download) ''downloadError'' = obj_get download ''downloadError''"
  by (simp add: stringifyAnyErrors_def RA_isError_def obj_get_def map_of_obj_set)

text \<open>
  C6. An \<open>Error\<close> attached to a record is forwarded as it is, not as a string:
  \<open>stringifyAnyErrors\<close> asks whether the record is an \<open>Error\<close>, which it never is. The
  tracker's table holds the failed post \<open>p3\<close> and a client connects.
\<close>

theorem page_load_forwards_error_object:
  "written (run [TrackerTable
                   [(''p3'', [(''id'', Str ''p3''),
                              (''title'', Str ''gone''),
                              (''url'', Str ''https://i.redd.it/gone.png''),
                              (''downloadFailed'', Bool True),
                              (''downloadError'',
                                 Err (JSError ''HTTPError'' ''Response code 404 (Not Found)'')),
                              (''downloadedBytes'', Num 0)])],
                 Connect] start) 0 =
     [(''event: page-load'',
       Downloads [[(''id'', Str ''p3''),
                   (''url'', Str ''https://i.redd.it/gone.png''),
                   (''downloadFailed'', Bool True),
                   (''downloadError'',
                      Err (JSError ''HTTPError'' ''Response code 404 (Not Found)''))]])]"
  by (simp add: start_def SSEHandler_def Let_def setHeader_def reply_write_def
      fold_on_other createSSEEvent_def convertDownloadsMapForFrontend_def
      trimmedDownloadProps_def R_pick_def stringifyAnyErrors_def RA_isError_def obj_get_def
      obj_set_def removePropsWithNoData_def R_pickBy_def RA_isNonEmptyString_def)

text \<open>
  C7. Nothing is written to a connection before it is opened, and whatever happens after
  \<open>SSEHandler\<close> has run for it, the first frame written to it is the \<open>page-load\<close> frame
  with the tracker's whole table as it was when the client connected.
\<close>

theorem page_load_first:
  "written (run before start) (connections (run before start)) = [] \<and>
   (\<exists>later. written (run after (SSEHandler (run before start))) (connections (run before start)) =
      createSSEEvent \<lparr>event = ''page-load'',
        data = Downloads (convertDownloadsMapForFrontend (posts (run before start)))\<rparr> # later)"
proof -
  let ?s = "run before start"
  have q: "written ?s (connections ?s) = []"
    using quiet_run [OF wf_start quiet_start, of before] by (simp add: quiet_def)
  obtain fs where "written (run after (SSEHandler ?s)) (connections ?s) =
      written (SSEHandler ?s) (connections ?s) @ fs"
    using written_run_grows by blast
  with q show ?thesis by (simp add: written_SSEHandler)
qed

theorem page_load_first_witness:
  "written (run [TrackerTable [(''p1'', [(''id'', Str ''p1''), (''downloadedBytes'', Num 0)])]]
              start) 0 = [] \<and>
   (\<exists>later.
      written (run [Emit ''download-started'' (ArgsPost ''p1'')]
                 (SSEHandler
                    (run [TrackerTable [(''p1'', [(''id'', Str ''p1''),
                                                   (''downloadedBytes'', Num 0)])]] start))) 0 =
        (''event: page-load'', Downloads [[(''id'', Str ''p1'')]]) # later)"
  using page_load_first
    [of "[TrackerTable [(''p1'', [(''id'', Str ''p1''), (''downloadedBytes'', Num 0)])]]"
        "[Emit ''download-started'' (ArgsPost ''p1'')]"]
  by (simp add: start_def createSSEEvent_def convertDownloadsMapForFrontend_def
      trimmedDownloadProps_def R_pick_def stringifyAnyErrors_def RA_isError_def obj_get_def
      obj_set_def removePropsWithNoData_def R_pickBy_def RA_isNonEmptyString_def)

text \<open>
  C8. The \<open>close\<close> callback of connection \<open>c\<close> removes, under every event name, the
  listeners of \<open>c\<close> and leaves the listeners of the other connections as they were, in
  the same order.
\<close>

theorem onClose_removes_own_listeners:
  "listeners (onClose c (run as start)) ev =
     filter (\<lambda>l. fst l \<noteq> c) (listeners (run as start) ev)"
  by (rule listeners_onClose [OF wf_run [OF wf_start]])

theorem onClose_removes_own_listeners_witness:
  "listeners (onClose 0 (run [Connect, Connect] start)) ''download-progress'' =
     [(1, progressOfADownload)]"
  using onClose_removes_own_listeners [of 0 "[Connect, Connect]" "''download-progress''"]
  by (simp add: listeners_SSEHandler connections_SSEHandler start_def registrations_def)

text \<open>
  C10. \<open>removePropsWithNoData\<close> keeps a numeric property exactly when its value is
  strictly greater than zero, so a negative number is dropped like zero; it keeps a string
  exactly when it is non-empty and a boolean exactly when it is true, and it drops
  \<open>null\<close> and \<open>undefined\<close>.
\<close>

theorem removePropsWithNoData_keeps:
  "((k, Num n) \<in> set (removePropsWithNoData d)) = ((k, Num n) \<in> set d \<and> 0 < n) \<and>
   ((k, Str s) \<in> set (removePropsWithNoData d)) = ((k, Str s) \<in> set d \<and> s \<noteq> []) \<and>
   ((k, Bool b) \<in> set (removePropsWithNoData d)) = ((k, Bool b) \<in> set d \<and> b) \<and>
   (k, Null) \<notin> set (removePropsWithNoData d) \<and>
   (k, Undefined) \<notin> set (removePropsWithNoData d)"
  by (auto simp: removePropsWithNoData_def R_pickBy_def RA_isNonEmptyString_def)

section \<open>Properties of the pipeline\<close>

subsection \<open>The callback\<close>





lemma callback_post_cat:
  "downloadPostsMedia_callback sample_world sample_settings post_cat = (run_cat, Inr (Str ''p1''))"
  by (simp add: downloadPostsMedia_callback_def sample_world_def post_cat_def run_cat_def
      createMediaFolderForPost_def tryBlock_def downloadIndividualPostMedia_def Let_def
      tooManyDownloadTries_def maxNumberDownloadTriesAllowed_def)


lemma callback_post_gone:
  "downloadPostsMedia_callback sample_world sample_settings post_gone =
     (run_gone, Inl ReferenceError_logDownloadErrorIfNotOffline)"
  by (simp add: downloadPostsMedia_callback_def sample_world_def post_gone_def run_gone_def
      createMediaFolderForPost_def tryBlock_def downloadIndividualPostMedia_def Let_def
      tooManyDownloadTries_def maxNumberDownloadTriesAllowed_def)

subsection \<open>The sweep\<close>




lemma forEachAsync_single:
  "forEachAsync f [x] runs r =
     (runs = [fst (f x)] \<and> r = (case snd (f x) of Inl e \<Rightarrow> Inl e | Inr v \<Rightarrow> Inr ()))"
proof
  assume "forEachAsync f [x] runs r"
  then show "runs = [fst (f x)] \<and> r = (case snd (f x) of Inl e \<Rightarrow> Inl e | Inr v \<Rightarrow> Inr ())"
  proof (cases rule: forEachAsync.cases)
    case resolved
    then show ?thesis by (auto split: sum.splits)
  next
    case (rejected i k e)
    then have "k = 1" "i = 0" by auto
    with rejected show ?thesis by simp
  qed
next
  assume a: "runs = [fst (f x)] \<and> r = (case snd (f x) of Inl e \<Rightarrow> Inl e | Inr v \<Rightarrow> Inr ())"
  show "forEachAsync f [x] runs r"
  proof (cases "snd (f x)")
    case (Inl e)
    have "forEachAsync f [x] (map (\<lambda>x. fst (f x)) (take 1 [x])) (Inl e)"
      by (rule forEachAsync.rejected [where i = 0]) (simp_all add: Inl)
    then show ?thesis using a Inl by simp
  next
    case (Inr v)
    have "forEachAsync f [x] (map (\<lambda>x. fst (f x)) [x]) (Inr ())"
      by (rule forEachAsync.resolved) (simp add: Inr)
    then show ?thesis using a Inr by simp
  qed
qed

subsection \<open>The batch\<close>

lemma removeFailedDownloads_ids_and_errors_alike:
  "removeFailedDownloads w (Some [Str i, Err e]) =
     Inr (if isNotError w (Bool True) then [Str i, Err e] else [])"
  by (simp add: removeFailedDownloads_def R_compose_def RA_isNotNil_def)

lemma downloadPostsMedia_rejects:
  "downloadPostsMedia w settings batch runs r \<Longrightarrow> \<exists>e. r = Inl e"
proof (induction rule: downloadPostsMedia.induct)
  case (1 w settings postsMediaToBeDownloaded runs swept)
  then show ?case
    by (cases swept) (simp_all add: removeFailedDownloads_def)
qed


lemma downloadPostsMedia_single:
  "downloadPostsMedia w settings [(k, p)] runs r =
     (runs = [[Tracker_initializeWithNewPosts [p]], fst (downloadPostsMedia_callback w settings p)] \<and>
      r = (case snd (downloadPostsMedia_callback w settings p) of
             Inl e \<Rightarrow> Inl e
           | Inr v \<Rightarrow> Inl TypeError_filter_of_undefined))"
  by (auto simp: downloadPostsMedia.simps forEachAsync_single removeFailedDownloads_def
      split: sum.splits)



subsection \<open>What the batch does\<close>

text \<open>
  C1. \<open>downloadPostsMedia\<close> does not resolve with the list of the posts that
  succeeded: the sweep resolves with \<open>undefined\<close>, \<open>removeFailedDownloads\<close> reads
  \<open>filter\<close> off it, and the promise rejects. For the batch of the single post \<open>p1\<close>,
  whose download succeeds, the one outcome is the run of its callback and the rejection
  with that \<open>TypeError\<close>.
\<close>

theorem downloadPostsMedia_single_success_rejects:
  "downloadPostsMedia sample_world sample_settings [(''p1'', post_cat)] runs r =
     (runs = [[Tracker_initializeWithNewPosts [post_cat]], run_cat] \<and>
      r = Inl TypeError_filter_of_undefined)"
  by (simp add: downloadPostsMedia_single callback_post_cat)

text \<open>
  C2 as stated fails: for a post that is not a direct media link, no pair
  of the \<open>R.cond\<close> list matches and \<open>downloadIndividualPostMedia\<close> yields \<open>undefined\<close>.
\<close>

theorem downloadIndividualPostMedia_no_strategy: "downloadIndividualPostMedia sample_world
     \<lparr>post = post_text, adminSettings = sample_settings, postMediaFolder = ''posts-media/p4''\<rparr> = None"
  by (simp add: downloadIndividualPostMedia_def sample_world_def post_text_def)

text \<open>
  C2, amended. \<open>downloadIndividualPostMedia\<close> yields the direct download exactly when
  \<open>isDirectMediaLink\<close> holds, and nothing otherwise.
\<close>

theorem downloadIndividualPostMedia_direct_or_nothing: "downloadIndividualPostMedia w a =
     (if isDirectMediaLink w a
      then Some ([Executor_downloadDirectMediaLink a],
                 case downloadDirectMediaLink w a of Some e \<Rightarrow> Inl e | None \<Rightarrow> Inr ())
      else None)"
  by (simp add: downloadIndividualPostMedia_def)



text \<open>
  C4. A failure of the executor is caught and recorded with \<open>setDownloadFailed\<close>, but
  the \<open>catch\<close> block then throws on its unbound name, the callback rejects and the
  batch with it. For the batch of the single post \<open>p3\<close>, whose transfer fails, the one
  outcome is the run that ends with \<open>setDownloadFailed\<close> and the rejection with the
  \<open>ReferenceError\<close>.
\<close>

theorem downloadPostsMedia_single_failure_rejects:
  "downloadPostsMedia sample_world sample_settings [(''p3'', post_gone)] runs r =
     (runs = [[Tracker_initializeWithNewPosts [post_gone]], run_gone] \<and>
      r = Inl ReferenceError_logDownloadErrorIfNotOffline)"
  by (simp add: downloadPostsMedia_single callback_post_gone)

end
